theory Spec2Isabelle
  imports Main "HOL-Library.Word" "HOL-Library.AList"
begin

section \<open>The Watch panel of the debugger (DolphinQt/Debugger/WatchWidget.cpp)\<close>

text \<open>
  The panel is glue between three collaborators that live outside WatchWidget.cpp:
  the emulated machine (\<open>Core::IsRunning\<close>, \<open>PowerPC::HostIsRAMAddress\<close>,
  \<open>HostRead_U32\<close>, \<open>HostWrite_U32\<close>, \<open>HostGetString\<close>), the watch store
  (\<open>PowerPC::debug_interface\<close>) and the settings file (\<open>IniFile\<close>). The machine and the
  Qt number parser are parameters of the model (record \<open>Platform\<close>), so every theorem holds
  for any implementation of them; the watch store and the settings file are modelled from
  the specification, each definition saying so.
\<close>

subsection \<open>Data\<close>

type_synonym u32 = "32 word"

text \<open>A watch entry: \<open>entry.name\<close> and \<open>entry.address\<close> are the two fields the panel reads.\<close>

record Watch =
  address :: u32
  name :: string

text \<open>
  The functions of the emulated machine \<open>'t\<close> and of Qt that the panel calls and whose code
  is not part of the panel. \<open>toUInt txt base\<close> is \<open>QString::toUInt(&good, base)\<close>:
  \<open>None\<close> when \<open>good\<close> is false. \<open>WatchFromString\<close> and \<open>WatchToString\<close> are the line format
  of the watch store, which the specification leaves to the store.
\<close>

record 't Platform =
  IsRunning :: "'t \<Rightarrow> bool"
  HostIsRAMAddress :: "'t \<Rightarrow> u32 \<Rightarrow> bool"
  HostRead_U32 :: "'t \<Rightarrow> u32 \<Rightarrow> u32"
  HostGetString :: "'t \<Rightarrow> u32 \<Rightarrow> nat \<Rightarrow> string"
  HostWrite_U32 :: "u32 \<Rightarrow> u32 \<Rightarrow> 't \<Rightarrow> 't"
  toUInt :: "string \<Rightarrow> nat \<Rightarrow> u32 option"
  WatchFromString :: "string \<Rightarrow> Watch"
  WatchToString :: "Watch \<Rightarrow> string"
  GameSettingsPath :: string

text \<open>
  A table item. \<open>UserRole\<close> and \<open>UserRole1\<close> are \<open>data(Qt::UserRole)\<close> and
  \<open>data(Qt::UserRole + 1)\<close>; \<open>None\<close> is the null \<open>QVariant\<close> of an item whose data was never
  set. \<open>DefaultFlags\<close> are the flags of a fresh \<open>QTableWidgetItem\<close> (editable among them);
  \<open>ItemIsEnabled\<close> is what \<open>setFlags(Qt::ItemIsEnabled)\<close> leaves: enabled, not editable.
\<close>

datatype Colour = PaletteText | Red

datatype ItemFlags = DefaultFlags | ItemIsEnabled

record Item =
  item_text :: string
  foreground :: Colour
  flags :: ItemFlags
  UserRole :: "int option"
  UserRole1 :: "int option"

text \<open>
  The table widget: its horizontal header labels and its rows of five cells
  (\<open>setColumnCount(5)\<close> in \<open>CreateWidgets\<close>). A cell holds an item or nothing.
\<close>

record Table =
  header :: "string list"
  cells :: "Item option list list"

text \<open>What the user is shown besides the table, and (\<open>UpdateCalled\<close>) a mark left by each
  call of \<open>Update\<close>, so that "a refresh happened" can be read off the state.\<close>

datatype Event = UpdateCalled | Critical string string

text \<open>The settings file as the specification describes it: named sections, in order, each
  holding an ordered list of lines.\<close>

type_synonym IniFile = "(string \<times> string list) list"

record 't State =
  target :: 't
  watches :: "Watch list"
  m_updating :: bool
  m_table :: Table
  game_id :: string
  files :: "string \<rightharpoonup> IniFile"
  events :: "Event list"

datatype fault = IndexOutOfRange

subsection \<open>Qt: number formatting and the table widget\<close>

definition digit_char :: "nat \<Rightarrow> char" where
  "digit_char d = ''0123456789abcdefghijklmnopqrstuvwxyz'' ! d"

text \<open>\<open>QString::number(n, base)\<close> for an unsigned \<open>n\<close> and a base from 2 to 36: the digits of
  \<open>n\<close>, most significant first, lower case.\<close>

function QString_number :: "nat \<Rightarrow> nat \<Rightarrow> string" where
  "QString_number n base =
     (if base < 2 \<or> n < base then [digit_char n]
      else QString_number (n div base) base @ [digit_char (n mod base)])"
  by pat_completeness auto
termination
  by (relation "measure (\<lambda>(n, base). n)") auto

declare QString_number.simps [simp del]

text \<open>\<open>QStringLiteral("%1").arg(n, fieldWidth, base, fillChar)\<close> with a positive field width:
  the number, padded on the left with \<open>fillChar\<close> up to \<open>fieldWidth\<close> characters.\<close>

definition QString_arg :: "nat \<Rightarrow> nat \<Rightarrow> nat \<Rightarrow> char \<Rightarrow> string" where
  "QString_arg n fieldWidth base fillChar =
     (let s = QString_number n base in replicate (fieldWidth - length s) fillChar @ s)"

definition new_item :: Item where
  "new_item =
     \<lparr>item_text = [], foreground = PaletteText, flags = DefaultFlags,
      UserRole = None, UserRole1 = None\<rparr>"

text \<open>\<open>QTableWidget::clear\<close> removes every item and the header labels and keeps the dimensions.\<close>

definition clear :: "Table \<Rightarrow> Table" where
  "clear tb = \<lparr>header = [], cells = replicate (length (cells tb)) (replicate 5 None)\<rparr>"

definition setRowCount :: "nat \<Rightarrow> Table \<Rightarrow> Table" where
  "setRowCount n tb =
     tb\<lparr>cells := take n (cells tb) @ replicate (n - length (cells tb)) (replicate 5 None)\<rparr>"

definition setHorizontalHeaderLabels :: "string list \<Rightarrow> Table \<Rightarrow> Table" where
  "setHorizontalHeaderLabels labels tb = tb\<lparr>header := labels\<rparr>"

text \<open>\<open>QTableWidget::setItem\<close> ignores a cell outside the table.\<close>

definition setItem :: "nat \<Rightarrow> nat \<Rightarrow> Item \<Rightarrow> Table \<Rightarrow> Table" where
  "setItem r c it tb =
     (if r < length (cells tb) \<and> c < length (cells tb ! r)
      then tb\<lparr>cells := (cells tb)[r := (cells tb ! r)[c := Some it]]\<rparr>
      else tb)"

subsection \<open>The watch store (\<open>PowerPC::debug_interface\<close>)\<close>

text \<open>Modelled from the spec: the watch store's code is not in WatchWidget.cpp. The
  specification gives it as an ordered sequence of entries with
  "enumerate count and entry-by-index; add(name, address); remove(index);
  rename(index, name); re-address(index, address); bulk-serialize-to-strings();
  bulk-deserialize-from-strings(list); clear-all()", where add "appends a new entry with
  the given name and address" and remove "removes exactly one entry and shifts subsequent
  indices down by one". An index that names no entry is the fault \<open>IndexOutOfRange\<close>: the
  specification gives these operations no meaning there.\<close>

definition in_range :: "int \<Rightarrow> Watch list \<Rightarrow> bool" where
  "in_range i ws = (0 \<le> i \<and> i < int (length ws))"

text \<open>Modelled from the spec: \<open>GetWatches\<close>, "enumerate count and entry-by-index".\<close>

definition GetWatches :: "Watch list \<Rightarrow> Watch list" where
  "GetWatches ws = ws"

text \<open>Modelled from the spec: \<open>GetWatch\<close>, "entry-by-index".\<close>

definition GetWatch :: "int \<Rightarrow> Watch list \<Rightarrow> fault + Watch" where
  "GetWatch i ws = (if in_range i ws then Inr (ws ! nat i) else Inl IndexOutOfRange)"

text \<open>Modelled from the spec: \<open>SetWatch\<close>, "appends a new entry with the given name and
  address to the Watch Store".\<close>

definition SetWatch :: "u32 \<Rightarrow> string \<Rightarrow> Watch list \<Rightarrow> Watch list" where
  "SetWatch addr nm ws = ws @ [\<lparr>address = addr, name = nm\<rparr>]"

text \<open>Modelled from the spec: \<open>RemoveWatch\<close>, "removes the entry at the given index",
  "exactly one entry", and "shifts subsequent indices down by one".\<close>

definition RemoveWatch :: "int \<Rightarrow> Watch list \<Rightarrow> fault + Watch list" where
  "RemoveWatch i ws =
     (if in_range i ws then Inr (take (nat i) ws @ drop (Suc (nat i)) ws)
      else Inl IndexOutOfRange)"

text \<open>Modelled from the spec: \<open>UpdateWatchName\<close>, "rename(index, name)".\<close>

definition UpdateWatchName :: "int \<Rightarrow> string \<Rightarrow> Watch list \<Rightarrow> fault + Watch list" where
  "UpdateWatchName i nm ws =
     (if in_range i ws then Inr (ws[nat i := (ws ! nat i)\<lparr>name := nm\<rparr>])
      else Inl IndexOutOfRange)"

text \<open>Modelled from the spec: \<open>UpdateWatchAddress\<close>, "re-address(index, address)".\<close>

definition UpdateWatchAddress :: "int \<Rightarrow> u32 \<Rightarrow> Watch list \<Rightarrow> fault + Watch list" where
  "UpdateWatchAddress i addr ws =
     (if in_range i ws then Inr (ws[nat i := (ws ! nat i)\<lparr>address := addr\<rparr>])
      else Inl IndexOutOfRange)"

text \<open>Modelled from the spec: \<open>ClearWatches\<close>, "clear-all()".\<close>

definition ClearWatches :: "Watch list \<Rightarrow> Watch list" where
  "ClearWatches ws = []"

text \<open>Modelled from the spec: \<open>LoadWatchesFromStrings\<close>, "bulk-deserialize-from-strings(list)"
  of "an ordered list of opaque strings (one per watch entry)"; each entry is added as
  \<open>SetWatch\<close> adds it. The format of a line is the parameter \<open>WatchFromString\<close>.\<close>

definition LoadWatchesFromStrings :: "'t Platform \<Rightarrow> string list \<Rightarrow> Watch list \<Rightarrow> Watch list" where
  "LoadWatchesFromStrings P lines ws = ws @ map (WatchFromString P) lines"

text \<open>Modelled from the spec: \<open>SaveWatchesToStrings\<close>, "bulk-serialize-to-strings()", one
  line per entry, in order. The format of a line is the parameter \<open>WatchToString\<close>.\<close>

definition SaveWatchesToStrings :: "'t Platform \<Rightarrow> Watch list \<Rightarrow> string list" where
  "SaveWatchesToStrings P ws = map (WatchToString P) ws"

subsection \<open>The settings file (\<open>IniFile\<close>)\<close>

text \<open>Modelled from the spec: the code of \<open>IniFile\<close> is not in WatchWidget.cpp. The
  specification gives "one configuration file per target identifier, containing a named
  section whose value is an ordered list of opaque strings"; \<open>Load\<close> fails on a file that
  is absent, \<open>GetLines\<close> fails on a section that is absent, \<open>SetLines\<close> "writes/overwrites"
  one section, and \<open>Save\<close> writes the file, "creating the file if absent". The file system
  maps a path to the sections of the file there.\<close>

text \<open>Modelled from the spec: \<open>IniFile::Load\<close>; \<open>None\<close> is the result \<open>false\<close> on a
  "missing/unreadable persistence file".\<close>

definition IniFile_Load :: "(string \<rightharpoonup> IniFile) \<Rightarrow> string \<Rightarrow> IniFile option" where
  "IniFile_Load fs path = fs path"

text \<open>Modelled from the spec: \<open>IniFile::GetLines\<close>; \<open>None\<close> is the result \<open>false\<close> when the
  section "is absent".\<close>

definition GetLines :: "string \<Rightarrow> IniFile \<Rightarrow> string list option" where
  "GetLines section ini = map_of ini section"

text \<open>Modelled from the spec: \<open>IniFile::SetLines\<close>, "writes/overwrites the "Watches" section":
  the lines of an existing section are replaced where the section stands, a new section is
  added at the end.\<close>

definition SetLines :: "string \<Rightarrow> string list \<Rightarrow> IniFile \<Rightarrow> IniFile" where
  "SetLines section lines ini = AList.update section lines ini"

text \<open>Modelled from the spec: \<open>IniFile::Save\<close>, "creating the file if absent".\<close>

definition IniFile_Save :: "string \<Rightarrow> IniFile \<Rightarrow> (string \<rightharpoonup> IniFile) \<Rightarrow> (string \<rightharpoonup> IniFile)" where
  "IniFile_Save path ini fs = fs(path \<mapsto> ini)"

text \<open>\<open>File::GetUserPath(D_GAMESETTINGS_IDX) + SConfig::GetInstance().GetGameID() + ".ini"\<close>\<close>

definition ini_path :: "'t Platform \<Rightarrow> 't State \<Rightarrow> string" where
  "ini_path P s = GameSettingsPath P @ game_id s @ ''.ini''"

subsection \<open>\<open>WatchWidget::Update\<close>\<close>

text \<open>Translations (\<open>tr\<close>) are left out: a label is its source text.\<close>

definition header_labels :: "string list" where
  "header_labels = [''Label'', ''Address'', ''Hexadecimal'', ''Decimal'', ''String'']"

text \<open>Lines 120 to 133: the guard flag is raised, the table is emptied and resized to one row
  per watch and one more, and the header is written. The size of the store is taken to fit
  the \<open>int\<close> it is cast to.\<close>

definition Update_begin :: "'t State \<Rightarrow> 't State" where
  "Update_begin s =
     (let sz = length (GetWatches (watches s))
      in s\<lparr>m_updating := True,
           m_table := setHorizontalHeaderLabels header_labels
                        (setRowCount (sz + 1) (clear (m_table s))),
           events := events s @ [UpdateCalled]\<rparr>)"

text \<open>The body of the loop of lines 135 to 179 for the entry \<open>entry\<close> of index \<open>i\<close>: the
  five \<open>setItem\<close> calls it makes, as (row, column, item), in the order it makes them.\<close>

definition row_writes :: "'t Platform \<Rightarrow> 't \<Rightarrow> nat \<Rightarrow> Watch \<Rightarrow> (nat \<times> nat \<times> Item) list" where
  "row_writes P t i entry =
     (let label = new_item\<lparr>item_text := name entry\<rparr>;
          address_item = new_item\<lparr>item_text := QString_arg (unat (address entry)) 8 16 CHR ''0''\<rparr>;
          hex = new_item;
          decimal = new_item;
          string = new_item;
          brush = (if \<not> IsRunning P t \<or> \<not> HostIsRAMAddress P t (address entry)
                   then Red else PaletteText);
          populate = (if IsRunning P t then HostIsRAMAddress P t (address entry) else False);
          hex = (if populate
                 then hex\<lparr>item_text := QString_arg (unat (HostRead_U32 P t (address entry))) 8 16 CHR ''0''\<rparr>
                 else hex);
          decimal = (if populate
                     then decimal\<lparr>item_text := QString_number (unat (HostRead_U32 P t (address entry))) 10\<rparr>
                     else decimal);
          string = (if populate
                    then string\<lparr>item_text := HostGetString P t (address entry) 32\<rparr>
                    else string);
          address_item = address_item\<lparr>foreground := brush\<rparr>;
          tag = (\<lambda>column item. item\<lparr>UserRole := Some (int i), UserRole1 := Some column\<rparr>);
          label = tag 0 label;
          address_item = tag 1 address_item;
          hex = tag 2 hex;
          decimal = tag 3 decimal;
          string = (tag 4 string)\<lparr>flags := ItemIsEnabled\<rparr>
      in [(i, 0, label), (i, 1, address_item), (i, 2, hex), (i, 3, decimal), (i, 4, string)])"

text \<open>Lines 181 to 191: the row after the last watch. Its label carries the row number
  \<open>-1\<close> and no column; the other four cells carry no data and cannot be edited.\<close>

definition sentinel_writes :: "nat \<Rightarrow> (nat \<times> nat \<times> Item) list" where
  "sentinel_writes sz =
     (sz, 0, new_item\<lparr>UserRole := Some (- 1)\<rparr>)
       # map (\<lambda>i. (sz, i, new_item\<lparr>flags := ItemIsEnabled\<rparr>)) [1..<5]"

text \<open>Every \<open>setItem\<close> call of one \<open>Update\<close>, in order. The loop index stays below the size of
  the store, so \<open>GetWatch(i)\<close> always finds its entry.\<close>

definition table_writes :: "'t Platform \<Rightarrow> 't State \<Rightarrow> (nat \<times> nat \<times> Item) list" where
  "table_writes P s =
     (let sz = length (GetWatches (watches s))
      in concat (map (\<lambda>i. row_writes P (target s) i (watches s ! i)) [0..<sz])
           @ sentinel_writes sz)"

text \<open>The cells a sequence of writes to one row leaves in that row.\<close>

definition cells_of :: "(nat \<times> nat \<times> Item) list \<Rightarrow> Item option list" where
  "cells_of ws = map (\<lambda>(r, c, it). Some it) ws"

definition apply_writes :: "(nat \<times> nat \<times> Item) list \<Rightarrow> Table \<Rightarrow> Table" where
  "apply_writes ws tb = fold (\<lambda>(r, c, it). setItem r c it) ws tb"

text \<open>The state of the panel after the first \<open>k\<close> \<open>setItem\<close> calls of an \<open>Update\<close>: the
  states in which Qt delivers \<open>itemChanged\<close> for the cell just written.\<close>

definition Update_upto :: "'t Platform \<Rightarrow> nat \<Rightarrow> 't State \<Rightarrow> 't State" where
  "Update_upto P k s =
     (let s1 = Update_begin s
      in s1\<lparr>m_table := apply_writes (take k (table_writes P s)) (m_table s1)\<rparr>)"

definition Update :: "'t Platform \<Rightarrow> 't State \<Rightarrow> 't State" where
  "Update P s = (Update_upto P (length (table_writes P s)) s)\<lparr>m_updating := False\<rparr>"

text \<open>The table a finished \<open>Update\<close> shows for a target and a watch list (lemma
  \<open>Update_table\<close> below): the header, one row per watch as \<open>row_writes\<close> fills it, and the
  last row as \<open>sentinel_writes\<close> fills it.\<close>

abbreviation rendered_table :: "'t Platform \<Rightarrow> 't \<Rightarrow> Watch list \<Rightarrow> Table" where
  "rendered_table P t ws \<equiv>
     \<lparr>header = header_labels,
      cells = map (\<lambda>i. cells_of (row_writes P t i (ws ! i))) [0..<length ws]
                @ [cells_of (sentinel_writes (length ws))]\<rparr>"

subsection \<open>The edit handler and the actions\<close>

definition AddWatch :: "string \<Rightarrow> u32 \<Rightarrow> 't State \<Rightarrow> 't State" where
  "AddWatch nm addr s = s\<lparr>watches := SetWatch addr nm (watches s)\<rparr>"

definition DeleteWatch :: "'t Platform \<Rightarrow> int \<Rightarrow> 't State \<Rightarrow> fault + 't State" where
  "DeleteWatch P row s =
     (case RemoveWatch row (watches s) of
        Inl e \<Rightarrow> Inl e
      | Inr ws \<Rightarrow> Inr (Update P (s\<lparr>watches := ws\<rparr>)))"

text \<open>\<open>QMessageBox::critical(this, tr("Error"), tr("Invalid input provided"))\<close>\<close>

definition critical :: "string \<Rightarrow> string \<Rightarrow> 't State \<Rightarrow> 't State" where
  "critical title msg s = s\<lparr>events := events s @ [Critical title msg]\<rparr>"

text \<open>\<open>WatchWidget::OnItemChanged\<close>. The row is \<open>data(Qt::UserRole).toInt()\<close>; the column is
  \<open>data(Qt::UserRole + 1).toInt()\<close>, which is 0 for an item without that datum.\<close>

definition OnItemChanged :: "'t Platform \<Rightarrow> Item \<Rightarrow> 't State \<Rightarrow> fault + 't State" where
  "OnItemChanged P item s =
     (if m_updating s then Inr s
      else
        (case UserRole item of
           None \<Rightarrow> Inr s
         | Some row \<Rightarrow>
            (let column = (case UserRole1 item of None \<Rightarrow> (0::int) | Some c \<Rightarrow> c)
             in if row = - 1
                then (if item_text item \<noteq> []
                      then Inr (Update P (AddWatch (item_text item) 0 s))
                      else Inr s)
                else
                  (case
                     (if column = 0
                      then (if item_text item = []
                            then DeleteWatch P row s
                            else (case UpdateWatchName row (item_text item) (watches s) of
                                    Inl e \<Rightarrow> Inl e
                                  | Inr ws \<Rightarrow> Inr (s\<lparr>watches := ws\<rparr>)))
                      else if column = 1 \<or> column = 2 \<or> column = 3
                      then (case toUInt P (item_text item) (if column < 3 then 16 else 10) of
                              Some v \<Rightarrow>
                                (if column = 1
                                 then (case UpdateWatchAddress row v (watches s) of
                                         Inl e \<Rightarrow> Inl e
                                       | Inr ws \<Rightarrow> Inr (s\<lparr>watches := ws\<rparr>))
                                 else (case GetWatch row (watches s) of
                                         Inl e \<Rightarrow> Inl e
                                       | Inr w \<Rightarrow>
                                           Inr (s\<lparr>target :=
                                                   HostWrite_U32 P v (address w) (target s)\<rparr>)))
                            | None \<Rightarrow> Inr (critical ''Error'' ''Invalid input provided'' s))
                      else Inr s)
                   of
                     Inl e \<Rightarrow> Inl e
                   | Inr s' \<Rightarrow> Inr (Update P s')))))"

text \<open>\<open>WatchWidget::OnLoad\<close>\<close>

definition OnLoad :: "'t Platform \<Rightarrow> 't State \<Rightarrow> 't State" where
  "OnLoad P s =
     (case IniFile_Load (files s) (ini_path P s) of
        None \<Rightarrow> s
      | Some ini \<Rightarrow>
          Update P
            (case GetLines ''Watches'' ini of
               Some lines \<Rightarrow>
                 s\<lparr>watches := LoadWatchesFromStrings P lines (ClearWatches (watches s))\<rparr>
             | None \<Rightarrow> s))"

text \<open>\<open>WatchWidget::OnSave\<close>. The result of \<open>ini.Load\<close> is not looked at: a file that cannot
  be loaded leaves \<open>ini\<close> empty.\<close>

definition OnSave :: "'t Platform \<Rightarrow> 't State \<Rightarrow> 't State" where
  "OnSave P s =
     (let ini = (case IniFile_Load (files s) (ini_path P s) of None \<Rightarrow> [] | Some i \<Rightarrow> i);
          ini = SetLines ''Watches'' (SaveWatchesToStrings P (watches s)) ini
      in s\<lparr>files := IniFile_Save (ini_path P s) ini (files s)\<rparr>)"

subsection \<open>A reference platform\<close>

text \<open>One implementation of the parameters, to run the panel on concrete inputs: a machine
  with a power state, 24 MiB of RAM from address 0, a 32-bit cell and a text at each address;
  a number parser for plain digit strings (lower case, no sign, no prefix, no blanks), which
  is how \<open>QString::toUInt\<close> reads such strings; and a line format "address name" with the
  address as eight hexadecimal digits.\<close>

record Machine =
  running :: bool
  word_at :: "u32 \<Rightarrow> u32"
  text_at :: "u32 \<Rightarrow> string"

definition digit_of :: "char \<Rightarrow> nat option" where
  "digit_of c = map_of (zip ''0123456789abcdefghijklmnopqrstuvwxyz'' [0..<36]) c"

fun parse_digits :: "nat \<Rightarrow> string \<Rightarrow> nat \<Rightarrow> nat option" where
  "parse_digits base [] acc = Some acc"
| "parse_digits base (c # cs) acc =
     (case digit_of c of
        None \<Rightarrow> None
      | Some d \<Rightarrow> if d < base then parse_digits base cs (acc * base + d) else None)"

definition plain_toUInt :: "string \<Rightarrow> nat \<Rightarrow> u32 option" where
  "plain_toUInt txt base =
     (if txt = [] then None
      else (case parse_digits base txt 0 of
              None \<Rightarrow> None
            | Some n \<Rightarrow> if n < 2 ^ 32 then Some (of_nat n) else None))"

definition plain_from_string :: "string \<Rightarrow> Watch" where
  "plain_from_string l =
     \<lparr>address = (case plain_toUInt (take 8 l) 16 of None \<Rightarrow> 0 | Some a \<Rightarrow> a),
      name = drop 9 l\<rparr>"

definition plain_to_string :: "Watch \<Rightarrow> string" where
  "plain_to_string w = QString_arg (unat (address w)) 8 16 CHR ''0'' @ '' '' @ name w"

definition ref_platform :: "Machine Platform" where
  "ref_platform =
     \<lparr>IsRunning = running,
      HostIsRAMAddress = (\<lambda>m a. a < 0x1800000),
      HostRead_U32 = (\<lambda>m a. word_at m a),
      HostGetString = (\<lambda>m a n. take n (text_at m a)),
      HostWrite_U32 = (\<lambda>v a m. m\<lparr>word_at := (word_at m)(a := v)\<rparr>),
      toUInt = plain_toUInt,
      WatchFromString = plain_from_string,
      WatchToString = plain_to_string,
      GameSettingsPath = ''GameSettings/''\<rparr>"

text \<open>A machine that runs, with the word 0x2a and the text "hp" at address 0x1000, and the
  same machine stopped.\<close>

definition machine_on :: Machine where
  "machine_on =
     \<lparr>running = True,
      word_at = (\<lambda>a. if a = 0x1000 then 0x2a else 0),
      text_at = (\<lambda>a. if a = 0x1000 then ''hp'' else [])\<rparr>"

definition machine_off :: Machine where
  "machine_off = machine_on\<lparr>running := False\<rparr>"

text \<open>A panel with two watches, the second outside RAM, an empty table and a settings file
  for the game that holds a section of its own besides the watches.\<close>

definition two_watches :: "Watch list" where
  "two_watches = [\<lparr>address = 0x1000, name = ''health''\<rparr>, \<lparr>address = 0xCC000000, name = ''io''\<rparr>]"

definition panel :: "Machine \<Rightarrow> Machine State" where
  "panel m =
     \<lparr>target = m, watches = two_watches, m_updating = False,
      m_table = \<lparr>header = [], cells = []\<rparr>, game_id = ''GALE01'',
      files = [''GameSettings/GALE01.ini'' \<mapsto>
                 [(''Core'', [''CPUThread = True'']), (''Watches'', [''00002000 lives''])]],
      events = []\<rparr>"

text \<open>The item of an existing row as \<open>Update\<close> tagged it, holding the text the user typed;
  and the label item of the last row.\<close>

definition edit :: "int \<Rightarrow> int \<Rightarrow> string \<Rightarrow> Item" where
  "edit row column txt = new_item\<lparr>item_text := txt, UserRole := Some row, UserRole1 := Some column\<rparr>"

definition sentinel_edit :: "string \<Rightarrow> Item" where
  "sentinel_edit txt = new_item\<lparr>item_text := txt, UserRole := Some (- 1)\<rparr>"

section \<open>Properties\<close>

subsection \<open>What \<open>Update\<close> touches\<close>

lemma Update_watches: "watches (Update P s) = watches s"
  by (simp add: Update_def Update_upto_def Update_begin_def Let_def)

lemma Update_target: "target (Update P s) = target s"
  by (simp add: Update_def Update_upto_def Update_begin_def Let_def)

lemma Update_files: "files (Update P s) = files s"
  by (simp add: Update_def Update_upto_def Update_begin_def Let_def)

lemma Update_game_id: "game_id (Update P s) = game_id s"
  by (simp add: Update_def Update_upto_def Update_begin_def Let_def)

lemma Update_m_updating: "m_updating (Update P s) = False"
  by (simp add: Update_def)

lemma Update_events: "events (Update P s) = events s @ [UpdateCalled]"
  by (simp add: Update_def Update_upto_def Update_begin_def Let_def)

lemma Update_upto_m_updating: "m_updating (Update_upto P k s) = True"
  by (simp add: Update_upto_def Update_begin_def Let_def)

subsection \<open>The table \<open>Update\<close> builds\<close>

lemma len5: "length xs = 5 \<Longrightarrow> \<exists>v w x y z. xs = [v, w, x, y, z]"
  by (simp add: length_Suc_conv eval_nat_numeral) (elim exE conjE, simp)

lemma update5:
  assumes "length xs = 5"
  shows "xs[0 := a, Suc 0 := b, 2 := c, 3 := d, 4 := e] = [a, b, c, d, e]"
proof -
  from len5[OF assms] obtain v w x y z where "xs = [v, w, x, y, z]"
    by blast
  then show ?thesis by (simp add: eval_nat_numeral)
qed

lemma row_writes_shape:
  "\<exists>a b c d e. row_writes P t i entry = [(i, 0, a), (i, 1, b), (i, 2, c), (i, 3, d), (i, 4, e)]"
  unfolding row_writes_def Let_def by (intro exI) (rule refl)

lemma sentinel_writes_shape:
  "\<exists>a b c d e. sentinel_writes n = [(n, 0, a), (n, 1, b), (n, 2, c), (n, 3, d), (n, 4, e)]"
proof -
  have "[1..<5] = [1, 2, 3, 4::nat]" by (simp add: upt_rec)
  then show ?thesis by (simp add: sentinel_writes_def)
qed

lemma apply_shape:
  assumes "ws = [(r, 0, a), (r, 1, b), (r, 2, c), (r, 3, d), (r, 4, e)]"
    and "r < length (cells tb)" and "length (cells tb ! r) = 5"
  shows "apply_writes ws tb = tb\<lparr>cells := (cells tb)[r := cells_of ws]\<rparr>"
  using assms by (simp add: apply_writes_def setItem_def update5 cells_of_def)

lemma apply_row_writes:
  assumes "i < length (cells tb)" and "length (cells tb ! i) = 5"
  shows "apply_writes (row_writes P t i e) tb
         = tb\<lparr>cells := (cells tb)[i := cells_of (row_writes P t i e)]\<rparr>"
proof -
  obtain a b c d x where "row_writes P t i e = [(i, 0, a), (i, 1, b), (i, 2, c), (i, 3, d), (i, 4, x)]"
    using row_writes_shape [of P t i e] by auto
  then show ?thesis by (rule apply_shape) (rule assms)+
qed

lemma apply_sentinel_writes:
  assumes "n < length (cells tb)" and "length (cells tb ! n) = 5"
  shows "apply_writes (sentinel_writes n) tb
         = tb\<lparr>cells := (cells tb)[n := cells_of (sentinel_writes n)]\<rparr>"
proof -
  obtain a b c d x where "sentinel_writes n = [(n, 0, a), (n, 1, b), (n, 2, c), (n, 3, d), (n, 4, x)]"
    using sentinel_writes_shape [of n] by auto
  then show ?thesis by (rule apply_shape) (rule assms)+
qed

lemma apply_writes_append: "apply_writes (xs @ ys) tb = apply_writes ys (apply_writes xs tb)"
  by (simp add: apply_writes_def)


lemma apply_rows:
  assumes "k < m"
  shows "apply_writes (concat (map (\<lambda>i. row_writes P t i (f i)) [0..<k]))
           \<lparr>header = h, cells = replicate m (replicate 5 None)\<rparr>
         = \<lparr>header = h,
            cells = map (\<lambda>i. cells_of (row_writes P t i (f i))) [0..<k]
                      @ replicate (m - k) (replicate 5 None)\<rparr>"
  using assms
proof (induction k)
  case 0
  show ?case by (simp add: apply_writes_def)
next
  case (Suc k)
  let ?T0 = "\<lparr>header = h, cells = replicate m (replicate 5 (None::Item option))\<rparr>"
  let ?A = "map (\<lambda>i. cells_of (row_writes P t i (f i))) [0..<k]"
  let ?r = "replicate 5 (None::Item option)"
  from Suc have IH: "apply_writes (concat (map (\<lambda>i. row_writes P t i (f i)) [0..<k])) ?T0
         = \<lparr>header = h, cells = ?A @ replicate (m - k) ?r\<rparr>" by simp
  from Suc.prems have km: "k < m" by simp
  have rep: "replicate (m - k) ?r = ?r # replicate (m - Suc k) ?r"
    using km by (cases "m - k") simp_all
  have "apply_writes (concat (map (\<lambda>i. row_writes P t i (f i)) [0..<Suc k])) ?T0
        = apply_writes (row_writes P t k (f k))
            (apply_writes (concat (map (\<lambda>i. row_writes P t i (f i)) [0..<k])) ?T0)"
    by (simp add: apply_writes_append)
  also have "\<dots> = apply_writes (row_writes P t k (f k))
                     \<lparr>header = h, cells = ?A @ replicate (m - k) ?r\<rparr>"
    by (simp only: IH)
  also have "\<dots> = \<lparr>header = h, cells = (?A @ replicate (m - k) ?r)[k := cells_of (row_writes P t k (f k))]\<rparr>"
    using km by (subst apply_row_writes) (simp_all add: nth_append)
  also have "\<dots> = \<lparr>header = h,
                     cells = map (\<lambda>i. cells_of (row_writes P t i (f i))) [0..<Suc k]
                               @ replicate (m - Suc k) ?r\<rparr>"
    by (simp add: list_update_append rep)
  finally show ?case .
qed

lemma apply_table_writes:
  "apply_writes (table_writes P s)
     \<lparr>header = h, cells = replicate (Suc (length (watches s))) (replicate 5 None)\<rparr>
   = \<lparr>header = h,
      cells = map (\<lambda>i. cells_of (row_writes P (target s) i (watches s ! i))) [0..<length (watches s)]
                @ [cells_of (sentinel_writes (length (watches s)))]\<rparr>"
proof -
  let ?n = "length (watches s)"
  have "apply_writes (table_writes P s)
          \<lparr>header = h, cells = replicate (Suc ?n) (replicate 5 None)\<rparr>
        = apply_writes (sentinel_writes ?n)
            \<lparr>header = h,
             cells = map (\<lambda>i. cells_of (row_writes P (target s) i (watches s ! i))) [0..<?n]
                       @ replicate (Suc ?n - ?n) (replicate 5 None)\<rparr>"
    unfolding table_writes_def Let_def GetWatches_def apply_writes_append
    by (subst apply_rows) simp_all
  also have "\<dots> = \<lparr>header = h,
      cells = (map (\<lambda>i. cells_of (row_writes P (target s) i (watches s ! i))) [0..<?n]
                @ [replicate 5 None])[?n := cells_of (sentinel_writes ?n)]\<rparr>"
    by (subst apply_sentinel_writes) (simp_all add: nth_append)
  also have "\<dots> = \<lparr>header = h,
      cells = map (\<lambda>i. cells_of (row_writes P (target s) i (watches s ! i))) [0..<?n]
                @ [cells_of (sentinel_writes ?n)]\<rparr>"
    by (simp add: list_update_append)
  finally show ?thesis .
qed

lemma take_replicate_pad: "take n (replicate m x) @ replicate (n - m) x = replicate n x"
  by (simp add: min_def flip: replicate_add)

lemma begin_table:
  "m_table (Update_begin s)
   = \<lparr>header = header_labels, cells = replicate (Suc (length (watches s))) (replicate 5 None)\<rparr>"
  by (simp add: Update_begin_def Let_def GetWatches_def setHorizontalHeaderLabels_def
      setRowCount_def clear_def take_replicate_pad del: replicate.simps take_replicate)

lemma Update_table:
  "m_table (Update P s)
   = \<lparr>header = header_labels,
      cells = map (\<lambda>i. cells_of (row_writes P (target s) i (watches s ! i))) [0..<length (watches s)]
                @ [cells_of (sentinel_writes (length (watches s)))]\<rparr>"
  by (simp add: Update_def Update_upto_def Let_def begin_table apply_table_writes
      del: replicate.simps)


subsection \<open>Number formatting\<close>

lemma QString_number_nonempty: "QString_number n b \<noteq> []"
  by (subst QString_number.simps) simp

lemma QString_number_length:
  assumes "2 \<le> b" and "n < b ^ k" and "0 < k"
  shows "length (QString_number n b) \<le> k"
  using assms
proof (induction k arbitrary: n)
  case 0
  then show ?case by simp
next
  case (Suc k)
  show ?case
  proof (cases "n < b")
    case True
    then show ?thesis by (subst QString_number.simps) simp
  next
    case False
    with Suc.prems have k: "0 < k"
      by (cases k) simp_all
    from Suc.prems have "n div b < b ^ k"
      by (simp add: less_mult_imp_div_less mult.commute)
    with Suc.IH [of "n div b"] Suc.prems k have "length (QString_number (n div b) b) \<le> k"
      by simp
    with False Suc.prems show ?thesis by (subst QString_number.simps) simp
  qed
qed

lemma QString_arg_u32_length: "length (QString_arg (unat (w :: u32)) 8 16 c) = 8"
proof -
  have "unat w < 2 ^ 32" using unsigned_less [of w] by simp
  then have "unat w < (16::nat) ^ 8" by simp
  then have "length (QString_number (unat w) 16) \<le> 8"
    by (intro QString_number_length) simp_all
  then show ?thesis by (simp add: QString_arg_def Let_def)
qed

lemma hex_00001000: "QString_arg 4096 8 16 CHR ''0'' = ''00001000''"
  by code_simp

lemma hex_0000002a: "QString_arg 42 8 16 CHR ''0'' = ''0000002a''"
  by code_simp

lemma dec_42: "QString_number 42 10 = ''42''"
  by code_simp

lemma replicate_4: "replicate 4 c = [c, c, c, c]"
  by (simp add: eval_nat_numeral)

lemma replicate_7: "replicate 7 c = [c, c, c, c, c, c, c]"
  by (simp add: eval_nat_numeral)

lemma number_0: "QString_number 0 b = ''0''"
  by (subst QString_number.simps) (auto simp: digit_char_def)

lemma number_2000: "QString_number 8192 16 = ''2000''"
  by (simp add: QString_number.simps [of 8192 16] QString_number.simps [of 512 16]
      QString_number.simps [of 32 16] QString_number.simps [of 2 16] digit_char_def)

lemma hex_00000000: "QString_arg 0 8 16 CHR ''0'' = ''00000000''"
  by (simp add: QString_arg_def number_0 replicate_7)

lemma hex_00002000: "QString_arg 8192 8 16 CHR ''0'' = ''00002000''"
  by (simp add: QString_arg_def number_2000 replicate_4)

subsection \<open>The rows of the table\<close>

lemma cells_of_row_writes:
  "cells_of (row_writes P t i e) =
     (let live = (IsRunning P t \<and> HostIsRAMAddress P t (address e)) in
      [Some \<lparr>item_text = name e, foreground = PaletteText, flags = DefaultFlags,
             UserRole = Some (int i), UserRole1 = Some 0\<rparr>,
       Some \<lparr>item_text = QString_arg (unat (address e)) 8 16 CHR ''0'',
             foreground = (if live then PaletteText else Red), flags = DefaultFlags,
             UserRole = Some (int i), UserRole1 = Some 1\<rparr>,
       Some \<lparr>item_text = (if live then QString_arg (unat (HostRead_U32 P t (address e))) 8 16 CHR ''0'' else []),
             foreground = PaletteText, flags = DefaultFlags,
             UserRole = Some (int i), UserRole1 = Some 2\<rparr>,
       Some \<lparr>item_text = (if live then QString_number (unat (HostRead_U32 P t (address e))) 10 else []),
             foreground = PaletteText, flags = DefaultFlags,
             UserRole = Some (int i), UserRole1 = Some 3\<rparr>,
       Some \<lparr>item_text = (if live then HostGetString P t (address e) 32 else []),
             foreground = PaletteText, flags = ItemIsEnabled,
             UserRole = Some (int i), UserRole1 = Some 4\<rparr>])"
  by (simp add: row_writes_def Let_def cells_of_def new_item_def)


lemma rendered_row:
  "i < length ws \<Longrightarrow> cells (rendered_table P t ws) ! i = cells_of (row_writes P t i (ws ! i))"
  by (simp add: nth_append)

text \<open>
  C1. After \<open>Update\<close>, the row of every watch entry shows the entry's name; its address as
  eight hexadecimal digits, padded with zeros; and, exactly when the target is running and
  the address is RAM, the 32-bit value at the address as eight hexadecimal digits, the same
  value in decimal and the string read there with the bound 32. Otherwise these three cells
  are blank and the address cell is drawn in red. The two number cells are never blank when
  they are filled; the string cell holds whatever \<open>HostGetString\<close> returns.
\<close>

theorem Update_renders_entry:
  fixes P :: "'t Platform" and s :: "'t State"
  assumes "i < length (watches s)"
  defines "e \<equiv> watches s ! i"
  defines "live \<equiv> IsRunning P (target s) \<and> HostIsRAMAddress P (target s) (address e)"
  defines "v \<equiv> unat (HostRead_U32 P (target s) (address e))"
  shows "cells (m_table (Update P s)) ! i =
           [Some \<lparr>item_text = name e, foreground = PaletteText, flags = DefaultFlags,
                  UserRole = Some (int i), UserRole1 = Some 0\<rparr>,
            Some \<lparr>item_text = QString_arg (unat (address e)) 8 16 CHR ''0'',
                  foreground = (if live then PaletteText else Red), flags = DefaultFlags,
                  UserRole = Some (int i), UserRole1 = Some 1\<rparr>,
            Some \<lparr>item_text = (if live then QString_arg v 8 16 CHR ''0'' else []),
                  foreground = PaletteText, flags = DefaultFlags,
                  UserRole = Some (int i), UserRole1 = Some 2\<rparr>,
            Some \<lparr>item_text = (if live then QString_number v 10 else []),
                  foreground = PaletteText, flags = DefaultFlags,
                  UserRole = Some (int i), UserRole1 = Some 3\<rparr>,
            Some \<lparr>item_text = (if live then HostGetString P (target s) (address e) 32 else []),
                  foreground = PaletteText, flags = ItemIsEnabled,
                  UserRole = Some (int i), UserRole1 = Some 4\<rparr>]
         \<and> length (QString_arg (unat (address e)) 8 16 CHR ''0'') = 8
         \<and> QString_arg v 8 16 CHR ''0'' \<noteq> []
         \<and> QString_number v 10 \<noteq> []"
proof -
  have "cells (m_table (Update P s)) ! i = cells_of (row_writes P (target s) i e)"
    using assms(1) by (simp add: Update_table nth_append e_def)
  moreover have "QString_arg v 8 16 CHR ''0'' \<noteq> []"
    by (simp add: QString_arg_def Let_def QString_number_nonempty)
  ultimately show ?thesis
    by (simp add: cells_of_row_writes Let_def live_def v_def QString_arg_u32_length
        QString_number_nonempty)
qed

theorem Update_renders_entry_witness:
  "cells (m_table (Update ref_platform (panel machine_on))) ! 0 =
     [Some \<lparr>item_text = ''health'', foreground = PaletteText, flags = DefaultFlags,
            UserRole = Some 0, UserRole1 = Some 0\<rparr>,
      Some \<lparr>item_text = ''00001000'', foreground = PaletteText, flags = DefaultFlags,
            UserRole = Some 0, UserRole1 = Some 1\<rparr>,
      Some \<lparr>item_text = ''0000002a'', foreground = PaletteText, flags = DefaultFlags,
            UserRole = Some 0, UserRole1 = Some 2\<rparr>,
      Some \<lparr>item_text = ''42'', foreground = PaletteText, flags = DefaultFlags,
            UserRole = Some 0, UserRole1 = Some 3\<rparr>,
      Some \<lparr>item_text = ''hp'', foreground = PaletteText, flags = ItemIsEnabled,
            UserRole = Some 0, UserRole1 = Some 4\<rparr>]
   \<and> cells (m_table (Update ref_platform (panel machine_off))) ! 0 =
     [Some \<lparr>item_text = ''health'', foreground = PaletteText, flags = DefaultFlags,
            UserRole = Some 0, UserRole1 = Some 0\<rparr>,
      Some \<lparr>item_text = ''00001000'', foreground = Red, flags = DefaultFlags,
            UserRole = Some 0, UserRole1 = Some 1\<rparr>,
      Some \<lparr>item_text = [], foreground = PaletteText, flags = DefaultFlags,
            UserRole = Some 0, UserRole1 = Some 2\<rparr>,
      Some \<lparr>item_text = [], foreground = PaletteText, flags = DefaultFlags,
            UserRole = Some 0, UserRole1 = Some 3\<rparr>,
      Some \<lparr>item_text = [], foreground = PaletteText, flags = ItemIsEnabled,
            UserRole = Some 0, UserRole1 = Some 4\<rparr>]"
  using Update_renders_entry [of 0 "panel machine_on" ref_platform]
    Update_renders_entry [of 0 "panel machine_off" ref_platform]
  by (simp add: panel_def two_watches_def ref_platform_def machine_on_def machine_off_def
      hex_00001000 hex_0000002a dec_42)

text \<open>
  C8. \<open>Update\<close> is idempotent: a second \<open>Update\<close> right after the first, with the watch
  list and the target as the first left them, builds the same table (header, row count,
  texts, colours, flags and data of every cell) and leaves the watch list, the target and
  the guard flag as they were.
\<close>

theorem Update_idempotent:
  "m_table (Update P (Update P s)) = m_table (Update P s)
   \<and> watches (Update P (Update P s)) = watches (Update P s)
   \<and> target (Update P (Update P s)) = target (Update P s)
   \<and> m_updating (Update P (Update P s)) = m_updating (Update P s)"
  by (simp add: Update_table Update_watches Update_target Update_m_updating)


theorem Update_idempotent_witness:
  "m_table (Update ref_platform (Update ref_platform (panel machine_on)))
     = m_table (Update ref_platform (panel machine_on))
   \<and> length (cells (m_table (Update ref_platform (Update ref_platform (panel machine_on))))) = 3"
  using Update_idempotent [of ref_platform "panel machine_on"]
  by (simp add: Update_table panel_def two_watches_def)

subsection \<open>The edit handler, case by case\<close>

lemma in_range_not_sentinel: "in_range row ws \<Longrightarrow> row \<noteq> - 1"
  by (auto simp: in_range_def)

lemma OnItemChanged_guard: "m_updating s \<Longrightarrow> OnItemChanged P item s = Inr s"
  by (simp add: OnItemChanged_def)

lemma OnItemChanged_sentinel:
  assumes "\<not> m_updating s" and "UserRole item = Some (- 1)"
  shows "OnItemChanged P item s =
           (if item_text item \<noteq> [] then Inr (Update P (AddWatch (item_text item) 0 s)) else Inr s)"
  using assms by (simp add: OnItemChanged_def Let_def)

lemma OnItemChanged_label:
  assumes "\<not> m_updating s" and "UserRole item = Some row" and "in_range row (watches s)"
    and "UserRole1 item = Some 0"
  shows "OnItemChanged P item s =
           (if item_text item = []
            then Inr (Update P (Update P (s\<lparr>watches := take (nat row) (watches s) @ drop (Suc (nat row)) (watches s)\<rparr>)))
            else Inr (Update P (s\<lparr>watches := (watches s)[nat row := (watches s ! nat row)\<lparr>name := item_text item\<rparr>]\<rparr>)))"
  using assms in_range_not_sentinel [OF assms(3)]
  by (simp add: OnItemChanged_def Let_def DeleteWatch_def RemoveWatch_def UpdateWatchName_def)

lemma OnItemChanged_address:
  assumes "\<not> m_updating s" and "UserRole item = Some row" and "in_range row (watches s)"
    and "UserRole1 item = Some 1" and "toUInt P (item_text item) 16 = Some v"
  shows "OnItemChanged P item s =
           Inr (Update P (s\<lparr>watches := (watches s)[nat row := (watches s ! nat row)\<lparr>address := v\<rparr>]\<rparr>))"
  using assms in_range_not_sentinel [OF assms(3)]
  by (simp add: OnItemChanged_def Let_def UpdateWatchAddress_def)

lemma OnItemChanged_value:
  assumes "\<not> m_updating s" and "UserRole item = Some row" and "in_range row (watches s)"
    and "UserRole1 item = Some column" and "column = 2 \<or> column = 3"
    and "toUInt P (item_text item) (if column = 2 then 16 else 10) = Some v"
  shows "OnItemChanged P item s =
           Inr (Update P (s\<lparr>target := HostWrite_U32 P v (address (watches s ! nat row)) (target s)\<rparr>))"
  using assms in_range_not_sentinel [OF assms(3)]
  by (auto simp: OnItemChanged_def Let_def GetWatch_def)

lemma OnItemChanged_invalid:
  assumes "\<not> m_updating s" and "UserRole item = Some row" and "row \<noteq> - 1"
    and "UserRole1 item = Some column" and "column = 1 \<or> column = 2 \<or> column = 3"
    and "toUInt P (item_text item) (if column = 3 then 10 else 16) = None"
  shows "OnItemChanged P item s = Inr (Update P (critical ''Error'' ''Invalid input provided'' s))"
  using assms by (auto simp: OnItemChanged_def Let_def)

lemma OnItemChanged_other_column:
  assumes "\<not> m_updating s" and "UserRole item = Some row" and "row \<noteq> - 1"
    and "UserRole1 item = Some column" and "column < 0 \<or> 3 < column"
  shows "OnItemChanged P item s = Inr (Update P s)"
  using assms by (auto simp: OnItemChanged_def Let_def)


lemma dispatched_edit_shape:
  assumes "\<not> m_updating s" and "UserRole item = Some row"
    and "in_range row (watches s) \<or> (row = - 1 \<and> item_text item \<noteq> [])"
  shows "\<exists>s0 pre. OnItemChanged P item s = Inr (Update P s0) \<and> events s0 = events s @ pre"
proof (cases "row = - 1")
  case True
  with assms show ?thesis
    by (auto simp: OnItemChanged_sentinel in_range_def AddWatch_def)
next
  case False
  with assms have r: "in_range row (watches s)" by simp
  with assms(1,2) False show ?thesis
    by (auto simp: OnItemChanged_def Let_def DeleteWatch_def RemoveWatch_def UpdateWatchName_def
        UpdateWatchAddress_def GetWatch_def Update_events critical_def split: option.splits)
qed

lemma parse_ff: "plain_toUInt ''ff'' 16 = Some 255"
  by (simp add: plain_toUInt_def digit_of_def upt_rec)

lemma parse_zzzz: "plain_toUInt ''zzzz'' 16 = None"
  by (simp add: plain_toUInt_def digit_of_def upt_rec)

lemma parse_1000: "plain_toUInt ''1000'' 16 = Some 0x1000"
  by (simp add: plain_toUInt_def digit_of_def upt_rec)

lemma parse_12a: "plain_toUInt ''12a'' 10 = None"
  by (simp add: plain_toUInt_def digit_of_def upt_rec)

lemma from_string_lives: "plain_from_string ''00002000 lives'' = \<lparr>address = 0x2000, name = ''lives''\<rparr>"
  by (simp add: plain_from_string_def plain_toUInt_def digit_of_def upt_rec)

lemma filter_update_other:
  "filter (\<lambda>p. fst p \<noteq> k) (AList.update k v al) = filter (\<lambda>p. fst p \<noteq> k) al"
  by (induction al) auto

subsection \<open>Editing a value cell\<close>

text \<open>
  C3. An edit of the hexadecimal cell (column 2) or the decimal cell (column 3) of an existing
  entry, whose text parses in base 16 or base 10 respectively, writes the parsed 32-bit value
  to target memory at the entry's address and leaves the watch list, and so the entry's name
  and address, as it was.
\<close>

theorem edit_value_writes_memory:
  assumes "\<not> m_updating s" and "UserRole item = Some row" and "in_range row (watches s)"
    and "UserRole1 item = Some column" and "column = 2 \<or> column = 3"
    and "toUInt P (item_text item) (if column = 2 then 16 else 10) = Some v"
  shows "\<exists>s'. OnItemChanged P item s = Inr s'
              \<and> target s' = HostWrite_U32 P v (address (watches s ! nat row)) (target s)
              \<and> watches s' = watches s"
  using OnItemChanged_value [OF assms] by (simp add: Update_target Update_watches)

theorem edit_value_writes_memory_witness:
  "map_sum id (\<lambda>s'. (word_at (target s') 0x1000, watches s'))
     (OnItemChanged ref_platform (edit 0 2 ''ff'') (panel machine_on))
   = Inr (0xff, two_watches)"
proof -
  have p: "toUInt ref_platform (item_text (edit 0 2 ''ff'')) (if (2::int) = 2 then 16 else 10) = Some 255"
    by (simp add: ref_platform_def edit_def parse_ff)
  have "\<exists>s'. OnItemChanged ref_platform (edit 0 2 ''ff'') (panel machine_on) = Inr s'
              \<and> target s' = HostWrite_U32 ref_platform 255
                    (address (watches (panel machine_on) ! nat 0)) (target (panel machine_on))
              \<and> watches s' = watches (panel machine_on)"
    by (rule edit_value_writes_memory [where column = 2 and row = 0, OF _ _ _ _ _ p])
       (simp_all add: panel_def edit_def in_range_def two_watches_def)
  then show ?thesis
    by (auto simp: panel_def two_watches_def ref_platform_def)
qed

text \<open>
  C4. An edit of the address, hexadecimal or decimal cell of an existing entry whose text
  does not parse in the cell's base (16, 16, 10) shows the error box "Invalid input
  provided" and changes neither the watch list nor the target's memory; the settings files
  stay as they were, too. The only other effect is the \<open>Update\<close> that follows.
\<close>

theorem invalid_input_changes_nothing:
  assumes "\<not> m_updating s" and "UserRole item = Some row" and "in_range row (watches s)"
    and "UserRole1 item = Some column" and "column = 1 \<or> column = 2 \<or> column = 3"
    and "toUInt P (item_text item) (if column = 3 then 10 else 16) = None"
  shows "\<exists>s'. OnItemChanged P item s = Inr s'
              \<and> watches s' = watches s \<and> target s' = target s \<and> files s' = files s
              \<and> events s' = events s @ [Critical ''Error'' ''Invalid input provided'', UpdateCalled]"
  using OnItemChanged_invalid [OF assms(1,2) in_range_not_sentinel [OF assms(3)] assms(4,5,6)]
  by (simp add: Update_target Update_watches Update_files Update_events critical_def)

theorem invalid_input_changes_nothing_witness:
  "map_sum id (\<lambda>s'. (watches s', target s', events s'))
     (OnItemChanged ref_platform (edit 0 3 ''12a'') (panel machine_on))
   = Inr (two_watches, machine_on, [Critical ''Error'' ''Invalid input provided'', UpdateCalled])"
proof -
  have p: "toUInt ref_platform (item_text (edit 0 3 ''12a'')) (if (3::int) = 3 then 10 else 16) = None"
    by (simp add: ref_platform_def edit_def parse_12a)
  have "\<exists>s'. OnItemChanged ref_platform (edit 0 3 ''12a'') (panel machine_on) = Inr s'
              \<and> watches s' = watches (panel machine_on) \<and> target s' = target (panel machine_on)
              \<and> files s' = files (panel machine_on)
              \<and> events s' = events (panel machine_on) @ [Critical ''Error'' ''Invalid input provided'', UpdateCalled]"
    by (rule invalid_input_changes_nothing [where column = 3 and row = 0, OF _ _ _ _ _ p])
       (simp_all add: panel_def edit_def in_range_def two_watches_def)
  then show ?thesis
    by (auto simp: panel_def)
qed

subsection \<open>Which edits refresh the table\<close>

text \<open>
  C5 as stated fails: an edit whose text does not parse is followed by an \<open>Update\<close> as well,
  since the call of \<open>Update\<close> at the end of the branch for existing rows is reached from
  every case of the switch. Here the address cell of the first entry is edited to "zzzz":
  the error box is shown and then \<open>Update\<close> runs.
\<close>

theorem invalid_input_refreshes:
  "toUInt ref_platform ''zzzz'' 16 = None
   \<and> map_sum id events (OnItemChanged ref_platform (edit 0 1 ''zzzz'') (panel machine_on))
     = Inr [Critical ''Error'' ''Invalid input provided'', UpdateCalled]"
proof -
  have p: "toUInt ref_platform (item_text (edit 0 1 ''zzzz'')) (if (1::int) = 3 then 10 else 16) = None"
    by (simp add: ref_platform_def edit_def parse_zzzz)
  have "OnItemChanged ref_platform (edit 0 1 ''zzzz'') (panel machine_on)
        = Inr (Update ref_platform (critical ''Error'' ''Invalid input provided'' (panel machine_on)))"
    by (rule OnItemChanged_invalid [where column = 1 and row = 0, OF _ _ _ _ _ p])
       (simp_all add: panel_def edit_def)
  then show ?thesis
    by (simp add: Update_events critical_def panel_def ref_platform_def parse_zzzz)
qed

text \<open>
  C5, amended. Every edit of a cell of an existing entry that the handler dispatches, whether
  its text is accepted or fails to parse, and every edit of the last row's label with a
  non-empty text, ends with a full \<open>Update\<close>: the table of the resulting state is the table
  \<open>Update\<close> builds for the resulting watch list and target, the guard flag is down, and the
  last event is that \<open>Update\<close>. When the text of an address, hexadecimal or decimal cell fails
  to parse, the error box "Invalid input provided" is shown and the \<open>Update\<close> follows it, with
  the watch list and the target as they were.
\<close>

theorem every_dispatched_edit_refreshes:
  assumes "\<not> m_updating s" and "UserRole item = Some row"
    and "in_range row (watches s) \<or> (row = - 1 \<and> item_text item \<noteq> [])"
  shows "\<exists>s'. OnItemChanged P item s = Inr s'
              \<and> m_table s' = rendered_table P (target s') (watches s')
              \<and> m_updating s' = False
              \<and> (\<exists>pre. events s' = events s @ pre @ [UpdateCalled])
              \<and> (\<forall>column. row \<noteq> - 1 \<and> UserRole1 item = Some column
                     \<and> (column = 1 \<or> column = 2 \<or> column = 3)
                     \<and> toUInt P (item_text item) (if column = 3 then 10 else 16) = None
                   \<longrightarrow> events s' = events s @ [Critical ''Error'' ''Invalid input provided'', UpdateCalled]
                       \<and> watches s' = watches s \<and> target s' = target s)"
proof -
  from dispatched_edit_shape [OF assms] obtain s0 pre where
    r: "OnItemChanged P item s = Inr (Update P s0)" and e: "events s0 = events s @ pre"
    by blast
  have "m_table (Update P s0) = rendered_table P (target (Update P s0)) (watches (Update P s0))"
    by (simp add: Update_table Update_target Update_watches)
  moreover have "m_updating (Update P s0) = False"
    by (simp add: Update_m_updating)
  moreover have "\<exists>pre. events (Update P s0) = events s @ pre @ [UpdateCalled]"
    using e by (simp add: Update_events)
  moreover have "events (Update P s0) = events s @ [Critical ''Error'' ''Invalid input provided'', UpdateCalled]
                 \<and> watches (Update P s0) = watches s \<and> target (Update P s0) = target s"
    if "row \<noteq> - 1" and "UserRole1 item = Some column" and "column = 1 \<or> column = 2 \<or> column = 3"
      and "toUInt P (item_text item) (if column = 3 then 10 else 16) = None" for column
  proof -
    have "OnItemChanged P item s = Inr (Update P (critical ''Error'' ''Invalid input provided'' s))"
      by (rule OnItemChanged_invalid [OF assms(1,2) that])
    with r have "Update P s0 = Update P (critical ''Error'' ''Invalid input provided'' s)"
      by simp
    then show ?thesis
      by (simp add: Update_events Update_watches Update_target critical_def)
  qed
  ultimately show ?thesis using r by blast
qed

theorem every_dispatched_edit_refreshes_witness:
  "map_sum id (\<lambda>s'. (events s', length (cells (m_table s')), cells (m_table s') ! 0))
     (OnItemChanged ref_platform (edit 0 1 ''zzzz'') (panel machine_on))
   = Inr ([Critical ''Error'' ''Invalid input provided'', UpdateCalled], 3,
          [Some \<lparr>item_text = ''health'', foreground = PaletteText, flags = DefaultFlags,
                 UserRole = Some 0, UserRole1 = Some 0\<rparr>,
           Some \<lparr>item_text = ''00001000'', foreground = PaletteText, flags = DefaultFlags,
                 UserRole = Some 0, UserRole1 = Some 1\<rparr>,
           Some \<lparr>item_text = ''0000002a'', foreground = PaletteText, flags = DefaultFlags,
                 UserRole = Some 0, UserRole1 = Some 2\<rparr>,
           Some \<lparr>item_text = ''42'', foreground = PaletteText, flags = DefaultFlags,
                 UserRole = Some 0, UserRole1 = Some 3\<rparr>,
           Some \<lparr>item_text = ''hp'', foreground = PaletteText, flags = ItemIsEnabled,
                 UserRole = Some 0, UserRole1 = Some 4\<rparr>])"
proof -
  have a: "\<not> m_updating (panel machine_on)" by (simp add: panel_def)
  have b: "UserRole (edit 0 1 ''zzzz'') = Some 0" by (simp add: edit_def)
  have c: "in_range 0 (watches (panel machine_on)) \<or> ((0::int) = - 1 \<and> item_text (edit 0 1 ''zzzz'') \<noteq> [])"
    by (simp add: panel_def in_range_def two_watches_def)
  have p: "(0::int) \<noteq> - 1 \<and> UserRole1 (edit 0 1 ''zzzz'') = Some 1
           \<and> ((1::int) = 1 \<or> (1::int) = 2 \<or> (1::int) = 3)
           \<and> toUInt ref_platform (item_text (edit 0 1 ''zzzz'')) (if (1::int) = 3 then 10 else 16) = None"
    by (simp add: edit_def ref_platform_def parse_zzzz)
  from every_dispatched_edit_refreshes [OF a b c, of ref_platform] obtain s' where
    r: "OnItemChanged ref_platform (edit 0 1 ''zzzz'') (panel machine_on) = Inr s'"
    and t: "m_table s' = rendered_table ref_platform (target s') (watches s')"
    and inv: "\<forall>column. (0::int) \<noteq> - 1 \<and> UserRole1 (edit 0 1 ''zzzz'') = Some column
                     \<and> (column = 1 \<or> column = 2 \<or> column = 3)
                     \<and> toUInt ref_platform (item_text (edit 0 1 ''zzzz'')) (if column = 3 then 10 else 16) = None
                   \<longrightarrow> events s' = events (panel machine_on) @ [Critical ''Error'' ''Invalid input provided'', UpdateCalled]
                       \<and> watches s' = watches (panel machine_on) \<and> target s' = target (panel machine_on)"
    by blast
  from inv p have e: "events s' = [Critical ''Error'' ''Invalid input provided'', UpdateCalled]"
    and w: "watches s' = two_watches" and m: "target s' = machine_on"
    by (simp_all add: panel_def)
  have "cells (m_table s') ! 0 = cells_of (row_writes ref_platform machine_on 0 (two_watches ! 0))"
    unfolding t w m by (rule rendered_row) (simp add: two_watches_def)
  moreover have "length (cells (m_table s')) = 3"
    unfolding t w by (simp add: two_watches_def)
  ultimately show ?thesis using r e
    by (simp add: cells_of_row_writes two_watches_def ref_platform_def machine_on_def
        hex_00001000 hex_0000002a dec_42)
qed

subsection \<open>The guard flag\<close>

text \<open>
  C9. While \<open>m_updating\<close> is set, and so in every state an \<open>Update\<close> passes through between
  raising the flag and lowering it (after any number of its \<open>setItem\<close> calls), the edit
  handler returns at once: the state is returned as it is, so no watch is changed, no memory
  is written and no error box is shown.
\<close>

theorem edits_ignored_while_updating:
  assumes "m_updating s \<or> (\<exists>k s0. s = Update_upto P k s0)"
  shows "OnItemChanged P item s = Inr s"
  using assms by (auto simp: OnItemChanged_guard Update_upto_m_updating)

theorem edits_ignored_while_updating_witness:
  "OnItemChanged ref_platform (edit 0 1 ''1000'') (Update_upto ref_platform 3 (panel machine_on))
     = Inr (Update_upto ref_platform 3 (panel machine_on))
   \<and> toUInt ref_platform ''1000'' 16 = Some 0x1000"
proof -
  have "OnItemChanged ref_platform (edit 0 1 ''1000'') (Update_upto ref_platform 3 (panel machine_on))
     = Inr (Update_upto ref_platform 3 (panel machine_on))"
    by (rule edits_ignored_while_updating) blast
  then show ?thesis by (simp add: ref_platform_def parse_1000)
qed


subsection \<open>Editing a name cell\<close>

text \<open>
  C6. An edit of the name cell (column 0) of an existing entry with an empty text removes
  exactly that entry: the entries before it and after it stay, in their order. With a
  non-empty text the entry gets that text as its name; its address and every other entry
  stay. The target's memory is not touched in either case.
\<close>

theorem edit_name_deletes_or_renames:
  assumes "\<not> m_updating s" and "UserRole item = Some row" and "in_range row (watches s)"
    and "UserRole1 item = Some 0"
  shows "\<exists>s'. OnItemChanged P item s = Inr s'
              \<and> target s' = target s
              \<and> watches s' =
                  (if item_text item = []
                   then take (nat row) (watches s) @ drop (Suc (nat row)) (watches s)
                   else (watches s)[nat row := (watches s ! nat row)\<lparr>name := item_text item\<rparr>])"
  using OnItemChanged_label [OF assms] by (simp add: Update_target Update_watches)

theorem edit_name_deletes_or_renames_witness:
  "map_sum id watches (OnItemChanged ref_platform (edit 0 0 []) (panel machine_on))
     = Inr [\<lparr>address = 0xCC000000, name = ''io''\<rparr>]
   \<and> map_sum id watches (OnItemChanged ref_platform (edit 1 0 ''gpio'') (panel machine_on))
     = Inr [\<lparr>address = 0x1000, name = ''health''\<rparr>, \<lparr>address = 0xCC000000, name = ''gpio''\<rparr>]"
proof -
  have "\<exists>s'. OnItemChanged ref_platform (edit 0 0 []) (panel machine_on) = Inr s'
              \<and> target s' = target (panel machine_on)
              \<and> watches s' =
                  (if item_text (edit 0 0 []) = []
                   then take (nat 0) (watches (panel machine_on)) @ drop (Suc (nat 0)) (watches (panel machine_on))
                   else (watches (panel machine_on))[nat 0 := (watches (panel machine_on) ! nat 0)\<lparr>name := item_text (edit 0 0 [])\<rparr>])"
    by (rule edit_name_deletes_or_renames [where row = 0])
       (simp_all add: panel_def edit_def in_range_def two_watches_def)
  moreover have "\<exists>s'. OnItemChanged ref_platform (edit 1 0 ''gpio'') (panel machine_on) = Inr s'
              \<and> target s' = target (panel machine_on)
              \<and> watches s' =
                  (if item_text (edit 1 0 ''gpio'') = []
                   then take (nat 1) (watches (panel machine_on)) @ drop (Suc (nat 1)) (watches (panel machine_on))
                   else (watches (panel machine_on))[nat 1 := (watches (panel machine_on) ! nat 1)\<lparr>name := item_text (edit 1 0 ''gpio'')\<rparr>])"
    by (rule edit_name_deletes_or_renames [where row = 1])
       (simp_all add: panel_def edit_def in_range_def two_watches_def)
  ultimately show ?thesis
    by (auto simp: panel_def edit_def two_watches_def new_item_def)
qed

text \<open>
  C7. An edit of the label of the last row (row number \<open>-1\<close>) with a non-empty text appends
  a watch with that name and address 0 to the store and then runs a full \<open>Update\<close>: the
  resulting table is the one \<open>Update\<close> builds for the extended watch list, with a row for the
  new watch, and the guard flag is down. With an empty text the edit changes nothing.
\<close>

theorem sentinel_edit_adds_watch:
  assumes "\<not> m_updating s" and "UserRole item = Some (- 1)"
  shows "OnItemChanged P item s =
           (if item_text item \<noteq> []
            then Inr (Update P (s\<lparr>watches := watches s @ [\<lparr>address = 0, name = item_text item\<rparr>]\<rparr>))
            else Inr s)
         \<and> (\<exists>s'. OnItemChanged P item s = Inr s'
               \<and> (if item_text item \<noteq> []
                    then watches s' = watches s @ [\<lparr>address = 0, name = item_text item\<rparr>]
                       \<and> target s' = target s
                       \<and> m_table s' = rendered_table P (target s)
                                          (watches s @ [\<lparr>address = 0, name = item_text item\<rparr>])
                       \<and> m_updating s' = False
                       \<and> events s' = events s @ [UpdateCalled]
                    else s' = s))"
  using OnItemChanged_sentinel [OF assms]
  by (simp add: AddWatch_def SetWatch_def Update_table Update_watches Update_target
      Update_m_updating Update_events)

theorem sentinel_edit_adds_watch_witness:
  "map_sum id (\<lambda>s'. (watches s', events s', length (cells (m_table s')), cells (m_table s') ! 2))
     (OnItemChanged ref_platform (sentinel_edit ''lives'') (panel machine_on))
     = Inr (two_watches @ [\<lparr>address = 0, name = ''lives''\<rparr>], [UpdateCalled], 4,
            [Some \<lparr>item_text = ''lives'', foreground = PaletteText, flags = DefaultFlags,
                   UserRole = Some 2, UserRole1 = Some 0\<rparr>,
             Some \<lparr>item_text = ''00000000'', foreground = PaletteText, flags = DefaultFlags,
                   UserRole = Some 2, UserRole1 = Some 1\<rparr>,
             Some \<lparr>item_text = ''00000000'', foreground = PaletteText, flags = DefaultFlags,
                   UserRole = Some 2, UserRole1 = Some 2\<rparr>,
             Some \<lparr>item_text = ''0'', foreground = PaletteText, flags = DefaultFlags,
                   UserRole = Some 2, UserRole1 = Some 3\<rparr>,
             Some \<lparr>item_text = [], foreground = PaletteText, flags = ItemIsEnabled,
                   UserRole = Some 2, UserRole1 = Some 4\<rparr>])
   \<and> OnItemChanged ref_platform (sentinel_edit []) (panel machine_on) = Inr (panel machine_on)"
proof -
  let ?ws = "two_watches @ [\<lparr>address = 0, name = ''lives''\<rparr>]"
  have a: "\<not> m_updating (panel machine_on)"
    by (simp add: panel_def)
  have b: "UserRole (sentinel_edit w) = Some (- 1)" for w
    by (simp add: sentinel_edit_def)
  have t: "item_text (sentinel_edit w) = w" for w
    by (simp add: sentinel_edit_def)
  from conjunct2 [OF sentinel_edit_adds_watch [OF a b [of "''lives''"], where P = ref_platform]]
  obtain s' where r: "OnItemChanged ref_platform (sentinel_edit ''lives'') (panel machine_on) = Inr s'"
    and w: "watches s' = ?ws" and e: "events s' = [UpdateCalled]"
    and tb: "m_table s' = rendered_table ref_platform machine_on ?ws"
    by (auto simp: t panel_def)
  have "cells (m_table s') ! 2 = cells_of (row_writes ref_platform machine_on 2 (?ws ! 2))"
    unfolding tb by (rule rendered_row) (simp add: two_watches_def)
  moreover have "length (cells (m_table s')) = 4"
    unfolding tb by (simp add: two_watches_def)
  moreover have "OnItemChanged ref_platform (sentinel_edit []) (panel machine_on) = Inr (panel machine_on)"
    using conjunct1 [OF sentinel_edit_adds_watch [OF a b [of "[]"], where P = ref_platform]] by (simp add: t)
  ultimately show ?thesis using r w e
    by (simp add: cells_of_row_writes two_watches_def ref_platform_def machine_on_def
        hex_00000000 number_0)
qed

subsection \<open>Load and Save\<close>

text \<open>
  C2. \<open>OnLoad\<close> leaves the whole panel, and so the watch list and the table, as it is when
  the game's settings file is absent; it leaves the watch list as it is and refreshes the
  table when the file has no section "Watches"; and when the section is there it replaces
  the watch list by the entries read from the section's lines, none of the old entries
  remaining, and then refreshes the table. After a refresh the table is the one \<open>Update\<close>
  builds for the resulting watch list and the target.
\<close>

theorem OnLoad_replaces_or_keeps:
  "OnLoad P s =
     (case files s (ini_path P s) of
        None \<Rightarrow> s
      | Some ini \<Rightarrow>
          (case GetLines ''Watches'' ini of
             None \<Rightarrow> Update P s
           | Some lines \<Rightarrow> Update P (s\<lparr>watches := map (WatchFromString P) lines\<rparr>)))
   \<and> watches (OnLoad P s) =
     (case files s (ini_path P s) of
        None \<Rightarrow> watches s
      | Some ini \<Rightarrow>
          (case GetLines ''Watches'' ini of
             None \<Rightarrow> watches s
           | Some lines \<Rightarrow> map (WatchFromString P) lines))
   \<and> m_table (OnLoad P s) =
     (case files s (ini_path P s) of
        None \<Rightarrow> m_table s
      | Some ini \<Rightarrow>
          rendered_table P (target s)
            (case GetLines ''Watches'' ini of
               None \<Rightarrow> watches s
             | Some lines \<Rightarrow> map (WatchFromString P) lines))
   \<and> target (OnLoad P s) = target s"
  by (simp add: OnLoad_def IniFile_Load_def LoadWatchesFromStrings_def ClearWatches_def
      Update_watches Update_table Update_target split: option.splits)

theorem OnLoad_replaces_or_keeps_witness:
  "watches (OnLoad ref_platform (panel machine_on)) = [\<lparr>address = 0x2000, name = ''lives''\<rparr>]
   \<and> length (cells (m_table (OnLoad ref_platform (panel machine_on)))) = 2
   \<and> cells (m_table (OnLoad ref_platform (panel machine_on))) ! 0 =
       [Some \<lparr>item_text = ''lives'', foreground = PaletteText, flags = DefaultFlags,
              UserRole = Some 0, UserRole1 = Some 0\<rparr>,
        Some \<lparr>item_text = ''00002000'', foreground = PaletteText, flags = DefaultFlags,
              UserRole = Some 0, UserRole1 = Some 1\<rparr>,
        Some \<lparr>item_text = ''00000000'', foreground = PaletteText, flags = DefaultFlags,
              UserRole = Some 0, UserRole1 = Some 2\<rparr>,
        Some \<lparr>item_text = ''0'', foreground = PaletteText, flags = DefaultFlags,
              UserRole = Some 0, UserRole1 = Some 3\<rparr>,
        Some \<lparr>item_text = [], foreground = PaletteText, flags = ItemIsEnabled,
              UserRole = Some 0, UserRole1 = Some 4\<rparr>]
   \<and> OnLoad ref_platform ((panel machine_on)\<lparr>game_id := ''GZLE01''\<rparr>)
     = (panel machine_on)\<lparr>game_id := ''GZLE01''\<rparr>
   \<and> watches (OnLoad ref_platform ((panel machine_on)\<lparr>files := [''GameSettings/GALE01.ini'' \<mapsto> [(''Core'', [])]]\<rparr>))
     = two_watches
   \<and> length (cells (m_table (OnLoad ref_platform ((panel machine_on)\<lparr>files := [''GameSettings/GALE01.ini'' \<mapsto> [(''Core'', [])]]\<rparr>)))) = 3"
proof -
  let ?loaded = "[\<lparr>address = 0x2000, name = ''lives''\<rparr>]"
  note L = OnLoad_replaces_or_keeps [of ref_platform "panel machine_on"]
  have w: "watches (OnLoad ref_platform (panel machine_on)) = ?loaded"
    by (subst conjunct1 [OF conjunct2 [OF L]])
       (simp add: panel_def ini_path_def ref_platform_def GetLines_def from_string_lives)
  have tb: "m_table (OnLoad ref_platform (panel machine_on)) = rendered_table ref_platform machine_on ?loaded"
    by (subst conjunct1 [OF conjunct2 [OF conjunct2 [OF L]]])
       (simp add: panel_def ini_path_def ref_platform_def GetLines_def from_string_lives)
  have row: "cells (m_table (OnLoad ref_platform (panel machine_on))) ! 0
             = cells_of (row_writes ref_platform machine_on 0 (?loaded ! 0))"
    unfolding tb by (rule rendered_row) simp
  have len: "length (cells (m_table (OnLoad ref_platform (panel machine_on)))) = 2"
    unfolding tb by simp
  have absent: "OnLoad ref_platform ((panel machine_on)\<lparr>game_id := ''GZLE01''\<rparr>)
     = (panel machine_on)\<lparr>game_id := ''GZLE01''\<rparr>"
    by (subst conjunct1 [OF OnLoad_replaces_or_keeps])
       (simp add: panel_def ini_path_def ref_platform_def)
  let ?nosec = "(panel machine_on)\<lparr>files := [''GameSettings/GALE01.ini'' \<mapsto> [(''Core'', [])]]\<rparr>"
  note N = OnLoad_replaces_or_keeps [of ref_platform ?nosec]
  have kept: "watches (OnLoad ref_platform ?nosec) = two_watches"
    by (subst conjunct1 [OF conjunct2 [OF N]])
       (simp add: panel_def ini_path_def ref_platform_def GetLines_def)
  have kept_len: "length (cells (m_table (OnLoad ref_platform ?nosec))) = 3"
    by (subst conjunct1 [OF conjunct2 [OF conjunct2 [OF N]]])
       (simp add: panel_def ini_path_def ref_platform_def GetLines_def two_watches_def)
  show ?thesis
    using w len row absent kept kept_len
    by (simp add: cells_of_row_writes ref_platform_def machine_on_def hex_00002000 hex_00000000
        number_0)
qed

text \<open>
  C10. \<open>OnSave\<close> on an existing settings file rewrites the section "Watches" with the lines
  of the current watch list and keeps every other section: the sections other than "Watches"
  are the same, in the same order and with the same lines, before and after.
\<close>

theorem OnSave_keeps_other_sections:
  assumes "files s (ini_path P s) = Some ini"
  shows "\<exists>ini'. files (OnSave P s) (ini_path P s) = Some ini'
               \<and> GetLines ''Watches'' ini' = Some (SaveWatchesToStrings P (watches s))
               \<and> filter (\<lambda>p. fst p \<noteq> ''Watches'') ini' = filter (\<lambda>p. fst p \<noteq> ''Watches'') ini
               \<and> (\<forall>section. section \<noteq> ''Watches'' \<longrightarrow> GetLines section ini' = GetLines section ini)"
  using assms
  by (simp add: OnSave_def IniFile_Load_def IniFile_Save_def SetLines_def GetLines_def
      update_conv' filter_update_other)

theorem OnSave_keeps_other_sections_witness:
  "map_option (GetLines ''Core'') (files (OnSave ref_platform (panel machine_on)) ''GameSettings/GALE01.ini'')
     = Some (Some [''CPUThread = True''])
   \<and> map_option (map fst) (files (OnSave ref_platform (panel machine_on)) ''GameSettings/GALE01.ini'')
     = Some [''Core'', ''Watches'']"
proof -
  have f: "files (panel machine_on) (ini_path ref_platform (panel machine_on))
           = Some [(''Core'', [''CPUThread = True'']), (''Watches'', [''00002000 lives''])]"
    by (simp add: panel_def ini_path_def ref_platform_def)
  have p: "ini_path ref_platform (panel machine_on) = ''GameSettings/GALE01.ini''"
    by (simp add: panel_def ini_path_def ref_platform_def)
  from OnSave_keeps_other_sections [OF f] obtain ini' where
    a: "files (OnSave ref_platform (panel machine_on)) ''GameSettings/GALE01.ini'' = Some ini'"
    and b: "filter (\<lambda>p. fst p \<noteq> ''Watches'') ini' = [(''Core'', [''CPUThread = True''])]"
    and c: "GetLines ''Core'' ini' = Some [''CPUThread = True'']"
    by (auto simp: p GetLines_def)
  have "map fst ini' = [''Core'', ''Watches'']"
    using a by (simp add: OnSave_def IniFile_Load_def IniFile_Save_def SetLines_def f [unfolded p] p) auto
  with a c show ?thesis by simp
qed


end
